theory Spec2Isabelle
  imports Main
begin

section \<open>The cache entry\<close>

text \<open>
  The server keeps one module-level variable \<^verbatim>\<open>jokesCache\<close> with the fields
  \<^verbatim>\<open>data\<close>, \<^verbatim>\<open>lastUpdated\<close> and \<^verbatim>\<open>isValid\<close>. The rows are passed through
  untouched, so their type is a parameter. \<^verbatim>\<open>lastUpdated\<close> is \<^verbatim>\<open>null\<close> or a
  reading of \<^verbatim>\<open>Date.now()\<close> (milliseconds, an integer).
\<close>

record 'r jokesCache =
  data :: "'r list"
  lastUpdated :: "int option"
  isValid :: bool

definition initialCache :: "'r jokesCache" where
  "initialCache = \<lparr>data = [], lastUpdated = None, isValid = False\<rparr>"

definition CACHE_DURATION :: int where
  "CACHE_DURATION = 5 * 60 * 1000"

text \<open>
  \<^verbatim>\<open>jokesCache.isValid && jokesCache.lastUpdated && (Date.now() - jokesCache.lastUpdated) < CACHE_DURATION\<close>,
  read for its truthiness, as the \<^verbatim>\<open>if\<close> of the route does. The middle operand is
  a JavaScript truthiness test: \<^verbatim>\<open>null\<close> and the number \<^verbatim>\<open>0\<close> are both falsy
  and end the conjunction there. The first argument is the reading of \<^verbatim>\<open>Date.now()\<close>.
\<close>

definition isCacheValid :: "int \<Rightarrow> 'r jokesCache \<Rightarrow> bool" where
  "isCacheValid now c =
     (isValid c \<and>
      (case lastUpdated c of
         None \<Rightarrow> False
       | Some t \<Rightarrow> t \<noteq> 0 \<and> now - t < CACHE_DURATION))"

text \<open>
  \<^verbatim>\<open>updateCache\<close> assigns a new object literal to the variable. The old entry is
  an argument of the model because the variable is global state; the right-hand side
  does not read it. The first argument is the reading of \<^verbatim>\<open>Date.now()\<close>.
\<close>

definition updateCache :: "int \<Rightarrow> 'r list \<Rightarrow> 'r jokesCache \<Rightarrow> 'r jokesCache" where
  "updateCache now d c = \<lparr>data = d, lastUpdated = Some now, isValid = True\<rparr>"

section \<open>The database pool and the retrying fetch\<close>

text \<open>
  What the pool does in one attempt: \<^verbatim>\<open>getConnection\<close> calls back with an error,
  or it hands out a connection whose query calls back with an error, or with the rows.
  The pool is assumed to call back every time.
\<close>

datatype 'r outcome = ConnErr | QueryErr | Rows "'r list"

text \<open>A JavaScript \<^verbatim>\<open>Error\<close>, of which the server reads only the message.\<close>

datatype error = Error string

fun message :: "error \<Rightarrow> string" where
  "message (Error m) = m"

text \<open>
  The calls the server makes on the pool, on a connection and on the timer, in the order
  it makes them. The number is the value of \<^verbatim>\<open>retries\<close> during the attempt, which
  identifies the attempt and the connection it was given. Console output is left out.
\<close>

datatype event = GetConnection nat | Query nat | Release nat | SetTimeout nat

definition MAX_RETRIES :: nat where
  "MAX_RETRIES = 3"

definition RETRY_DELAY :: nat where
  "RETRY_DELAY = 1000"

text \<open>
  The promise built in the body of the loop: its settlement and the calls made.
  \<^verbatim>\<open>connection.release()\<close> is the first statement of the query callback.
\<close>

fun attempt :: "nat \<Rightarrow> 'r outcome \<Rightarrow> (error + 'r list) \<times> event list" where
  "attempt n ConnErr =
     (Inl (Error ''Error connecting to the database''), [GetConnection n])"
| "attempt n QueryErr =
     (Inl (Error ''Error fetching data from the database''),
      [GetConnection n, Query n, Release n])"
| "attempt n (Rows rs) =
     (Inr rs, [GetConnection n, Query n, Release n])"

text \<open>
  The \<^verbatim>\<open>while (retries < MAX_RETRIES)\<close> loop. The pool is a function from the
  attempt number to what it does then; the third argument collects the calls made so
  far. The \<^verbatim>\<open>catch\<close> clause binds the rejection and does not use it.
\<close>

function fetch_loop ::
  "(nat \<Rightarrow> 'r outcome) \<Rightarrow> nat \<Rightarrow> event list \<Rightarrow> (error + 'r list) \<times> event list" where
  "fetch_loop pool retries tr =
     (if retries < MAX_RETRIES then
        (case attempt retries (pool retries) of
           (Inr results, ev) \<Rightarrow> (Inr results, tr @ ev)
         | (Inl e, ev) \<Rightarrow> fetch_loop pool (retries + 1) (tr @ ev @ [SetTimeout RETRY_DELAY]))
      else (Inl (Error ''Unable to connect to the database after multiple retries''), tr))"
  by pat_completeness auto
termination
  by (relation "measure (\<lambda>(pool, retries, tr). MAX_RETRIES - retries)") auto

definition fetchJokesFromDB ::
  "(nat \<Rightarrow> 'r outcome) \<Rightarrow> (error + 'r list) \<times> event list" where
  "fetchJokesFromDB pool = fetch_loop pool 0 []"

section \<open>The route \<^verbatim>\<open>GET /post\<close>\<close>

datatype 'r body = Records "'r list" | Failure string string

record 'r response =
  status :: nat
  cacheControl :: "string option"
  body :: "'r body"

record 'r served =
  resp :: "'r response"
  cache :: "'r jokesCache"
  calls :: "event list"

text \<open>
  One request, run without interleaving with another. \<open>now\<close> is the reading of
  \<^verbatim>\<open>Date.now()\<close> in \<^verbatim>\<open>isCacheValid\<close>, \<open>later\<close> the one in \<^verbatim>\<open>updateCache\<close>.
  The result holds the response, the cache entry after the request and the calls made.
\<close>

definition post_handler ::
  "int \<Rightarrow> int \<Rightarrow> (nat \<Rightarrow> 'r outcome) \<Rightarrow> 'r jokesCache \<Rightarrow> 'r served" where
  "post_handler now later pool c =
     (if isCacheValid now c then
        \<lparr>resp = \<lparr>status = 200, cacheControl = None, body = Records (data c)\<rparr>,
         cache = c, calls = []\<rparr>
      else
        (case fetchJokesFromDB pool of
           (Inr jokes, tr) \<Rightarrow>
             \<lparr>resp = \<lparr>status = 200, cacheControl = Some ''public, max-age=300'',
                      body = Records jokes\<rparr>,
              cache = updateCache later jokes c, calls = tr\<rparr>
         | (Inl err, tr) \<Rightarrow>
             (if length (data c) > 0 then
                \<lparr>resp = \<lparr>status = 200, cacheControl = Some ''public, max-age=60'',
                         body = Records (data c)\<rparr>,
                 cache = c, calls = tr\<rparr>
              else if message err = ''Error connecting to the database'' then
                \<lparr>resp = \<lparr>status = 503, cacheControl = None,
                         body = Failure ''Database connection error''
                           ''The database is currently unavailable. Please try again later.''\<rparr>,
                 cache = c, calls = tr\<rparr>
              else
                \<lparr>resp = \<lparr>status = 503, cacheControl = None,
                         body = Failure ''Service temporarily unavailable''
                           ''Please try again later''\<rparr>,
                 cache = c, calls = tr\<rparr>)))"

text \<open>An attempt fails when the pool does anything but deliver rows.\<close>

fun failed :: "'r outcome \<Rightarrow> bool" where
  "failed (Rows rs) = False"
| "failed ConnErr = True"
| "failed QueryErr = True"

text \<open>The calls of attempt \<open>n\<close>, and of a failed attempt with the wait after it.\<close>

definition attempt_calls :: "(nat \<Rightarrow> 'r outcome) \<Rightarrow> nat \<Rightarrow> event list" where
  "attempt_calls pool n = snd (attempt n (pool n))"

definition failed_round :: "(nat \<Rightarrow> 'r outcome) \<Rightarrow> nat \<Rightarrow> event list" where
  "failed_round pool n = attempt_calls pool n @ [SetTimeout RETRY_DELAY]"

section \<open>Facts about the retry loop\<close>

declare fetch_loop.simps [simp del]

lemma fetch_loop_done:
  "fetch_loop pool 3 tr =
     (Inl (Error ''Unable to connect to the database after multiple retries''), tr)"
  by (subst fetch_loop.simps) (simp add: MAX_RETRIES_def)

lemma fetch_loop_rows:
  "retries < 3 \<Longrightarrow> pool retries = Rows rs \<Longrightarrow>
   fetch_loop pool retries tr = (Inr rs, tr @ attempt_calls pool retries)"
  by (subst fetch_loop.simps) (simp add: MAX_RETRIES_def attempt_calls_def)

lemma fetch_loop_failed:
  "retries < 3 \<Longrightarrow> failed (pool retries) \<Longrightarrow>
   fetch_loop pool retries tr = fetch_loop pool (Suc retries) (tr @ failed_round pool retries)"
  by (subst fetch_loop.simps, cases "pool retries")
     (simp_all add: MAX_RETRIES_def attempt_calls_def failed_round_def)

text \<open>Three failures: three rounds, each with its wait, then the final error.\<close>

lemma fetch_all_failed:
  assumes "failed (pool 0)" "failed (pool 1)" "failed (pool 2)"
  shows "fetchJokesFromDB pool =
    (Inl (Error ''Unable to connect to the database after multiple retries''),
     failed_round pool 0 @ failed_round pool 1 @ failed_round pool 2)"
proof -
  have "fetch_loop pool 0 [] = fetch_loop pool (Suc 0) (failed_round pool 0)"
    using fetch_loop_failed [of 0 pool "[]"] assms(1) by simp
  also have "\<dots> = fetch_loop pool 2 (failed_round pool 0 @ failed_round pool 1)"
    using fetch_loop_failed [of 1 pool] assms(2) by (simp add: numeral_2_eq_2)
  also have "\<dots> =
      fetch_loop pool 3 (failed_round pool 0 @ failed_round pool 1 @ failed_round pool 2)"
    using fetch_loop_failed [of 2 pool] assms(3) by (simp add: numeral_3_eq_3 numeral_2_eq_2)
  finally show ?thesis by (simp add: fetchJokesFromDB_def fetch_loop_done)
qed

text \<open>Rows at attempt \<open>k\<close> after failures only: the loop returns them there.\<close>

lemma fetch_loop_prefix:
  "k < 3 \<Longrightarrow> retries \<le> k \<Longrightarrow> \<forall>j. retries \<le> j \<and> j < k \<longrightarrow> failed (pool j) \<Longrightarrow>
   pool k = Rows rs \<Longrightarrow>
   fetch_loop pool retries tr =
     (Inr rs, tr @ concat (map (failed_round pool) [retries..<k]) @ attempt_calls pool k)"
proof (induction "k - retries" arbitrary: retries tr)
  case 0
  then show ?case using fetch_loop_rows [of k pool rs tr] by simp
next
  case (Suc d)
  then have lt: "retries < k" by simp
  with Suc.prems have f: "failed (pool retries)" by simp
  have "fetch_loop pool retries tr =
      fetch_loop pool (Suc retries) (tr @ failed_round pool retries)"
    using fetch_loop_failed [of retries pool tr] lt Suc.prems(1) f by simp
  also have "\<dots> =
      (Inr rs, (tr @ failed_round pool retries) @
         concat (map (failed_round pool) [Suc retries..<k]) @ attempt_calls pool k)"
    using Suc.hyps(1) [of "Suc retries"] Suc.hyps(2) Suc.prems lt by simp
  finally show ?case using lt by (simp add: upt_conv_Cons)
qed

lemma fetch_first_rows:
  "k < 3 \<Longrightarrow> \<forall>j<k. failed (pool j) \<Longrightarrow> pool k = Rows rs \<Longrightarrow>
   fetchJokesFromDB pool =
     (Inr rs, concat (map (failed_round pool) [0..<k]) @ attempt_calls pool k)"
  using fetch_loop_prefix [of k 0 pool rs "[]"] by (simp add: fetchJokesFromDB_def)

text \<open>The fetch always settles, and it rejects exactly when all three attempts fail.\<close>

lemma fetch_cases:
  obtains (rows) k rs where "(k::nat) < 3" "\<forall>j<k. failed (pool j)" "pool k = Rows rs"
  | (exhausted) "failed (pool 0)" "failed (pool 1)" "failed (pool 2)"
proof (cases "failed (pool 0)")
  case False
  then obtain rs where "pool 0 = Rows rs" by (cases "pool 0") auto
  then show ?thesis using rows [of 0 rs] by simp
next
  case f0: True
  show ?thesis
  proof (cases "failed (pool 1)")
    case False
    then obtain rs where "pool 1 = Rows rs" by (cases "pool 1") auto
    then show ?thesis using rows [of 1 rs] f0 by simp
  next
    case f1: True
    show ?thesis
    proof (cases "failed (pool 2)")
      case False
      then obtain rs where "pool 2 = Rows rs" by (cases "pool 2") auto
      moreover have "\<forall>j<2. failed (pool j)"
        using f0 f1 by (simp add: less_Suc_eq numeral_2_eq_2)
      ultimately show ?thesis using rows [of 2 rs] by simp
    next
      case True
      then show ?thesis using exhausted f0 f1 by simp
    qed
  qed
qed

lemma fetch_Inl_iff:
  "(\<exists>e. fst (fetchJokesFromDB pool) = Inl e) \<longleftrightarrow>
     failed (pool 0) \<and> failed (pool 1) \<and> failed (pool 2)"
proof (cases pool rule: fetch_cases)
  case (rows k rs)
  then have "\<not> failed (pool k)" by simp
  moreover from rows have "k = 0 \<or> k = 1 \<or> k = 2" by auto
  ultimately show ?thesis using fetch_first_rows [OF rows] by auto
next
  case exhausted
  then show ?thesis using fetch_all_failed [of pool] by simp
qed

section \<open>Facts about the route, one per branch\<close>

lemma post_handler_valid:
  "isCacheValid now c \<Longrightarrow>
   post_handler now later pool c =
     \<lparr>resp = \<lparr>status = 200, cacheControl = None, body = Records (data c)\<rparr>,
      cache = c, calls = []\<rparr>"
  by (simp add: post_handler_def)

lemma post_handler_rows:
  "\<not> isCacheValid now c \<Longrightarrow> fetchJokesFromDB pool = (Inr jokes, tr) \<Longrightarrow>
   post_handler now later pool c =
     \<lparr>resp = \<lparr>status = 200, cacheControl = Some ''public, max-age=300'',
              body = Records jokes\<rparr>,
      cache = \<lparr>data = jokes, lastUpdated = Some later, isValid = True\<rparr>, calls = tr\<rparr>"
  by (simp add: post_handler_def updateCache_def)

lemma post_handler_stale:
  "\<not> isCacheValid now c \<Longrightarrow> fetchJokesFromDB pool = (Inl e, tr) \<Longrightarrow> data c \<noteq> [] \<Longrightarrow>
   post_handler now later pool c =
     \<lparr>resp = \<lparr>status = 200, cacheControl = Some ''public, max-age=60'',
              body = Records (data c)\<rparr>,
      cache = c, calls = tr\<rparr>"
  by (simp add: post_handler_def)

lemma post_handler_cold:
  "\<not> isCacheValid now c \<Longrightarrow>
   fetchJokesFromDB pool =
     (Inl (Error ''Unable to connect to the database after multiple retries''), tr) \<Longrightarrow>
   data c = [] \<Longrightarrow>
   post_handler now later pool c =
     \<lparr>resp = \<lparr>status = 503, cacheControl = None,
              body = Failure ''Service temporarily unavailable'' ''Please try again later''\<rparr>,
      cache = c, calls = tr\<rparr>"
  by (simp add: post_handler_def)

section \<open>The cache store\<close>

text \<open>
  \<^verbatim>\<open>lastUpdated\<close> is written only by \<^verbatim>\<open>updateCache\<close>, with the reading of
  \<^verbatim>\<open>Date.now()\<close>. The clock of a running server does not read 0 (the first
  millisecond of 1970), so no entry the server reaches is stamped 0: the initial entry
  has no stamp, and a request keeps the property. On such entries the truthiness test
  of \<^verbatim>\<open>isCacheValid\<close> is the test that \<^verbatim>\<open>lastUpdated\<close> is set.
\<close>

lemma initialCache_stamp:
  "lastUpdated (initialCache :: 'r jokesCache) \<noteq> Some 0"
  by (simp add: initialCache_def)

lemma post_handler_stamp:
  assumes "lastUpdated c \<noteq> Some 0" and "later \<noteq> 0"
  shows "lastUpdated (cache (post_handler now later pool c)) \<noteq> Some 0"
proof (cases "fetchJokesFromDB pool")
  case (Pair r tr)
  then show ?thesis
    using assms by (cases r) (simp_all add: post_handler_def updateCache_def)
qed

lemma isCacheValid_stamp_zero:
  "\<not> isCacheValid now \<lparr>data = d, lastUpdated = Some 0, isValid = v\<rparr>"
  by (simp add: isCacheValid_def)

text \<open>
  C6. On an entry whose stamp, if any, is a reading of the running clock,
  \<^verbatim>\<open>isCacheValid\<close> is true if and only if the valid flag is true,
  \<^verbatim>\<open>lastUpdated\<close> is set, and the time since then is less than the fixed five
  minutes. The clock is read at every call, so with the entry left alone the check is
  false from the moment five minutes have passed since \<^verbatim>\<open>lastUpdated\<close>.
\<close>

theorem isCacheValid_iff:
  "lastUpdated c \<noteq> Some 0 \<Longrightarrow>
   (isCacheValid now c \<longleftrightarrow>
      isValid c \<and> (\<exists>t. lastUpdated c = Some t \<and> now - t < 5 * 60 * 1000)) \<and>
   (lastUpdated c = Some u \<and> u + 5 * 60 * 1000 \<le> later \<longrightarrow> \<not> isCacheValid later c)"
  by (auto simp: isCacheValid_def CACHE_DURATION_def split: option.splits)

text \<open>
  An entry written at 100000 is valid at 200000 and no longer at 400000.
\<close>

theorem isCacheValid_iff_witness:
  "lastUpdated (\<lparr>data = [1], lastUpdated = Some 100000, isValid = True\<rparr> :: nat jokesCache)
     \<noteq> Some 0 \<and>
   isCacheValid 200000
     (\<lparr>data = [1], lastUpdated = Some 100000, isValid = True\<rparr> :: nat jokesCache) \<and>
   \<not> isCacheValid 400000
     (\<lparr>data = [1], lastUpdated = Some 100000, isValid = True\<rparr> :: nat jokesCache)"
proof -
  have stamp:
    "lastUpdated (\<lparr>data = [1], lastUpdated = Some 100000, isValid = True\<rparr> :: nat jokesCache)
       \<noteq> Some 0"
    by simp
  show ?thesis
    using isCacheValid_iff [OF stamp, of 200000 100000 400000] by simp
qed

text \<open>
  C7. \<^verbatim>\<open>updateCache\<close> replaces the whole entry by the new rows, the clock reading
  and a true flag, whatever the entry was. A request leaves the entry as it found it on
  the fast path and when the fetch fails (where the stale rows or an error are served);
  the entry changes only by \<^verbatim>\<open>updateCache\<close> after a fetch that delivered rows.
\<close>

theorem updateCache_only_mutator:
  "updateCache now d c = \<lparr>data = d, lastUpdated = Some now, isValid = True\<rparr> \<and>
   cache (post_handler now later pool c) =
     (if isCacheValid now c then c
      else case fst (fetchJokesFromDB pool) of
             Inl e \<Rightarrow> c
           | Inr jokes \<Rightarrow> \<lparr>data = jokes, lastUpdated = Some later, isValid = True\<rparr>)"
  by (cases "fetchJokesFromDB pool"; cases "fst (fetchJokesFromDB pool)")
     (simp_all add: post_handler_def updateCache_def)

text \<open>
  A valid entry of two rows is served and kept, although the pool has other rows.
\<close>

theorem updateCache_only_mutator_witness:
  "updateCache 7 [3] (\<lparr>data = [1, 2], lastUpdated = Some 100000, isValid = True\<rparr> :: nat jokesCache)
     = \<lparr>data = [3], lastUpdated = Some 7, isValid = True\<rparr> \<and>
   cache (post_handler 200000 200001 (\<lambda>n. Rows [3])
     (\<lparr>data = [1, 2], lastUpdated = Some 100000, isValid = True\<rparr> :: nat jokesCache))
     = \<lparr>data = [1, 2], lastUpdated = Some 100000, isValid = True\<rparr>"
  using updateCache_only_mutator
    [of 7 "[3]" "\<lparr>data = [1, 2], lastUpdated = Some 100000, isValid = True\<rparr> :: nat jokesCache"]
    updateCache_only_mutator
    [of 200000 "[]" "\<lparr>data = [1, 2], lastUpdated = Some 100000, isValid = True\<rparr> :: nat jokesCache"
      200001 "\<lambda>n. Rows [3]"]
  by (simp add: isCacheValid_def CACHE_DURATION_def)

text \<open>
  C10. When a request runs the fetch and all three attempts fail, the cache entry after
  the request is the entry before it, on the stale path and on the error path alike;
  and an entry that differs after a request was written after a fetch that delivered
  rows.
\<close>

theorem failed_fetch_keeps_cache:
  "(\<not> isCacheValid now c \<and> failed (pool 0) \<and> failed (pool 1) \<and> failed (pool 2) \<longrightarrow>
      cache (post_handler now later pool c) = c) \<and>
   (cache (post_handler now later pool c) \<noteq> c \<longrightarrow>
      (\<exists>jokes. fst (fetchJokesFromDB pool) = Inr jokes))"
proof (cases "isCacheValid now c")
  case True
  then show ?thesis by (simp add: post_handler_valid)
next
  case invalid: False
  show ?thesis
  proof (cases pool rule: fetch_cases)
    case (rows k rs)
    then show ?thesis using fetch_first_rows [OF rows] fetch_Inl_iff [of pool] by auto
  next
    case exhausted
    show ?thesis
    proof (cases "data c = []")
      case True
      then show ?thesis
        using post_handler_cold [OF invalid fetch_all_failed [OF exhausted]] by simp
    next
      case False
      then show ?thesis
        using post_handler_stale [OF invalid fetch_all_failed [OF exhausted]] by simp
    qed
  qed
qed

text \<open>
  An expired entry of one row, and the empty initial entry, with a pool that fails.
\<close>

theorem failed_fetch_keeps_cache_witness:
  "cache (post_handler 900000 900001 (\<lambda>n. QueryErr)
     (\<lparr>data = [1], lastUpdated = Some 100000, isValid = True\<rparr> :: nat jokesCache))
     = \<lparr>data = [1], lastUpdated = Some 100000, isValid = True\<rparr> \<and>
   cache (post_handler 900000 900001 (\<lambda>n. ConnErr) (initialCache :: nat jokesCache))
     = initialCache"
  using failed_fetch_keeps_cache
    [of 900000 "\<lparr>data = [1], lastUpdated = Some 100000, isValid = True\<rparr> :: nat jokesCache"
      "\<lambda>n. QueryErr" 900001]
    failed_fetch_keeps_cache
    [of 900000 "initialCache :: nat jokesCache" "\<lambda>n. ConnErr" 900001]
  by (simp add: isCacheValid_def CACHE_DURATION_def initialCache_def)

section \<open>Serving stale rows, and the failure a caller can see\<close>

text \<open>
  C2. When a request runs the fetch, all three attempts fail and the cache entry holds
  at least one row (whatever its flag and its age), the response is the cached rows with
  status 200 and \<^verbatim>\<open>Cache-Control: public, max-age=60\<close>; it is not an error.
\<close>

theorem stale_rows_served:
  "\<not> isCacheValid now c \<Longrightarrow> failed (pool 0) \<Longrightarrow> failed (pool 1) \<Longrightarrow> failed (pool 2) \<Longrightarrow>
   data c \<noteq> [] \<Longrightarrow>
   resp (post_handler now later pool c) =
     \<lparr>status = 200, cacheControl = Some ''public, max-age=60'', body = Records (data c)\<rparr>"
proof -
  assume invalid: "\<not> isCacheValid now c" and rows: "data c \<noteq> []"
    and f: "failed (pool 0)" "failed (pool 1)" "failed (pool 2)"
  show ?thesis
    using post_handler_stale [OF invalid fetch_all_failed [OF f] rows] by simp
qed

text \<open>
  An expired entry of five rows and an entry whose flag is false, with a failing pool.
\<close>

theorem stale_rows_served_witness:
  "resp (post_handler 900000 900001 (\<lambda>n. if n = 1 then QueryErr else ConnErr)
     (\<lparr>data = [1, 2, 3, 4, 5], lastUpdated = Some 100000, isValid = True\<rparr> :: nat jokesCache))
     = \<lparr>status = 200, cacheControl = Some ''public, max-age=60'',
        body = Records [1, 2, 3, 4, 5]\<rparr> \<and>
   resp (post_handler 5 6 (\<lambda>n. ConnErr)
     (\<lparr>data = [8], lastUpdated = None, isValid = False\<rparr> :: nat jokesCache))
     = \<lparr>status = 200, cacheControl = Some ''public, max-age=60'', body = Records [8]\<rparr>"
  using stale_rows_served
    [of 900000 "\<lparr>data = [1, 2, 3, 4, 5], lastUpdated = Some 100000, isValid = True\<rparr> :: nat jokesCache"
      "\<lambda>n. if n = 1 then QueryErr else ConnErr" 900001]
    stale_rows_served
    [of 5 "\<lparr>data = [8], lastUpdated = None, isValid = False\<rparr> :: nat jokesCache"
      "\<lambda>n. ConnErr" 6]
  by (simp add: isCacheValid_def CACHE_DURATION_def)

text \<open>
  C5. When a request runs the fetch with no row in the cache and all three attempts
  fail, the response has status 503 and a body of a fixed kind and a fixed message, and
  no rows. In every other case the response has status 200 and a body of rows: that case
  is the only one in which the caller sees a failure.
\<close>

theorem cold_start_failure_only:
  "(\<not> isCacheValid now c \<and> data c = [] \<and>
      failed (pool 0) \<and> failed (pool 1) \<and> failed (pool 2) \<longrightarrow>
      resp (post_handler now later pool c) =
        \<lparr>status = 503, cacheControl = None,
         body = Failure ''Service temporarily unavailable'' ''Please try again later''\<rparr>) \<and>
   (\<not> (\<not> isCacheValid now c \<and> data c = [] \<and>
      failed (pool 0) \<and> failed (pool 1) \<and> failed (pool 2)) \<longrightarrow>
      status (resp (post_handler now later pool c)) = 200 \<and>
      (\<exists>rs. body (resp (post_handler now later pool c)) = Records rs))"
proof (cases "isCacheValid now c")
  case True
  then show ?thesis by (simp add: post_handler_valid)
next
  case invalid: False
  show ?thesis
  proof (cases pool rule: fetch_cases)
    case (rows k rs)
    then have "\<not> failed (pool k)" and "k = 0 \<or> k = 1 \<or> k = 2" by auto
    then have "\<not> (failed (pool 0) \<and> failed (pool 1) \<and> failed (pool 2))" by auto
    then show ?thesis
      using post_handler_rows [OF invalid fetch_first_rows [OF rows]] by simp
  next
    case exhausted
    show ?thesis
    proof (cases "data c = []")
      case True
      then show ?thesis
        using post_handler_cold [OF invalid fetch_all_failed [OF exhausted]] exhausted invalid
        by simp
    next
      case False
      then show ?thesis
        using post_handler_stale [OF invalid fetch_all_failed [OF exhausted]] by simp
    qed
  qed
qed

text \<open>
  The empty initial cache with a failing pool gives the 503; with rows at the third
  attempt it gives the rows.
\<close>

theorem cold_start_failure_only_witness:
  "resp (post_handler 5 6 (\<lambda>n. QueryErr) (initialCache :: nat jokesCache)) =
     \<lparr>status = 503, cacheControl = None,
      body = Failure ''Service temporarily unavailable'' ''Please try again later''\<rparr> \<and>
   status (resp (post_handler 5 6 (\<lambda>n. if n = 2 then Rows [4] else QueryErr)
     (initialCache :: nat jokesCache))) = 200 \<and>
   (\<exists>rs. body (resp (post_handler 5 6 (\<lambda>n. if n = 2 then Rows [4] else QueryErr)
     (initialCache :: nat jokesCache))) = Records rs)"
  using cold_start_failure_only [of 5 "initialCache :: nat jokesCache" "\<lambda>n. QueryErr" 6]
    cold_start_failure_only
      [of 5 "initialCache :: nat jokesCache" "\<lambda>n. if n = 2 then Rows [4] else QueryErr" 6]
  by (simp add: isCacheValid_def initialCache_def)

section \<open>Connections are released\<close>

lemma attempt_calls_cases:
  "attempt_calls pool j =
     (if pool j = ConnErr then [GetConnection j] else [GetConnection j, Query j, Release j])"
  by (cases "pool j") (simp_all add: attempt_calls_def)

lemma count_release_round:
  "count_list (failed_round pool j) (Release n) = (if j = n \<and> pool j \<noteq> ConnErr then 1 else 0)"
  by (simp add: failed_round_def attempt_calls_cases)

lemma getConnection_in_round:
  "GetConnection n \<in> set (failed_round pool j) \<longleftrightarrow> j = n"
  by (auto simp: failed_round_def attempt_calls_cases)

lemma count_release_rounds:
  "count_list (concat (map (failed_round pool) [0..<k])) (Release n) =
     (if n < k \<and> pool n \<noteq> ConnErr then 1 else 0)"
  by (induction k) (auto simp: count_release_round)

lemma getConnection_in_rounds:
  "GetConnection n \<in> set (concat (map (failed_round pool) [0..<k])) \<longleftrightarrow> n < k"
proof -
  have "GetConnection n \<in> set (concat (map (failed_round pool) [0..<k])) \<longleftrightarrow>
      (\<exists>j<k. GetConnection n \<in> set (failed_round pool j))"
    by auto
  then show ?thesis by (simp add: getConnection_in_round)
qed

lemma rounds_3:
  "failed_round pool 0 @ failed_round pool 1 @ failed_round pool 2 =
     concat (map (failed_round pool) [0..<3])"
  by (simp add: numeral_3_eq_3 numeral_2_eq_2)

text \<open>
  C8. In the calls of one fetch, the connection of attempt \<open>n\<close> is released exactly
  once when that attempt was made and the pool handed out a connection, and never
  otherwise. The release follows the query whether the query failed or delivered rows,
  also in an attempt whose result the loop drops.
\<close>

theorem connection_released_once:
  "count_list (snd (fetchJokesFromDB pool)) (Release n) =
     (if GetConnection n \<in> set (snd (fetchJokesFromDB pool)) \<and> pool n \<noteq> ConnErr
      then 1 else 0) \<and>
   (pool n \<noteq> ConnErr \<longrightarrow> attempt_calls pool n = [GetConnection n, Query n, Release n]) \<and>
   (pool n = ConnErr \<longrightarrow> attempt_calls pool n = [GetConnection n])"
proof -
  have "count_list (snd (fetchJokesFromDB pool)) (Release n) =
     (if GetConnection n \<in> set (snd (fetchJokesFromDB pool)) \<and> pool n \<noteq> ConnErr
      then 1 else 0)"
  proof (cases pool rule: fetch_cases)
    case (rows k rs)
    have "pool k \<noteq> ConnErr" using rows(3) by simp
    then show ?thesis
      unfolding fetch_first_rows [OF rows] snd_conv count_list_append set_append Un_iff
        count_release_rounds getConnection_in_rounds
      by (auto simp: attempt_calls_cases)
  next
    case exhausted
    show ?thesis
      unfolding fetch_all_failed [OF exhausted] rounds_3 snd_conv
        count_release_rounds getConnection_in_rounds
      by simp
  qed
  then show ?thesis by (simp add: attempt_calls_cases)
qed

text \<open>
  A query that fails, then no connection, then rows: the connections of attempts 0 and 2
  are released once each, and attempt 1 has none to release.
\<close>

theorem connection_released_once_witness:
  "count_list
     (snd (fetchJokesFromDB (\<lambda>n. if n = 0 then QueryErr else if n = 1 then ConnErr else Rows [5::nat])))
     (Release 0) = 1 \<and>
   count_list
     (snd (fetchJokesFromDB (\<lambda>n. if n = 0 then QueryErr else if n = 1 then ConnErr else Rows [5::nat])))
     (Release 1) = 0 \<and>
   count_list
     (snd (fetchJokesFromDB (\<lambda>n. if n = 0 then QueryErr else if n = 1 then ConnErr else Rows [5::nat])))
     (Release 2) = 1"
proof -
  let ?pool = "\<lambda>n::nat. if n = 0 then QueryErr else if n = 1 then ConnErr else Rows [5::nat]"
  have tr: "snd (fetchJokesFromDB ?pool) =
      [GetConnection 0, Query 0, Release 0, SetTimeout 1000,
       GetConnection 1, SetTimeout 1000,
       GetConnection 2, Query 2, Release 2]"
    by (simp add: fetchJokesFromDB_def fetch_loop.simps MAX_RETRIES_def RETRY_DELAY_def)
  show ?thesis
    using connection_released_once [of ?pool 0] connection_released_once [of ?pool 1]
      connection_released_once [of ?pool 2]
    by (simp add: tr)
qed

section \<open>A fetch that delivers no rows\<close>

text \<open>
  C9. When a request runs the fetch and the first attempt that does not fail delivers
  zero rows, the cache entry becomes valid with an empty list. While five minutes have
  not passed since that update (stamped with a reading of the running clock, which is
  not 0), a request is served the empty list from the fast path, with no call to the
  pool. A later request that runs the fetch, with all three attempts failing, gets the
  503 failure, since the stale path needs at least one row.
\<close>

theorem empty_rows_then_failure:
  "\<not> isCacheValid now c \<and> k < 3 \<and> (\<forall>j<k. failed (pool j)) \<and> pool k = Rows [] \<longrightarrow>
     cache (post_handler now later pool c) =
       \<lparr>data = [], lastUpdated = Some later, isValid = True\<rparr> \<and>
     (later \<noteq> 0 \<and> now2 - later < CACHE_DURATION \<longrightarrow>
        post_handler now2 later2 pool2 (cache (post_handler now later pool c)) =
          \<lparr>resp = \<lparr>status = 200, cacheControl = None, body = Records []\<rparr>,
           cache = cache (post_handler now later pool c), calls = []\<rparr>) \<and>
     (\<not> isCacheValid now3 (cache (post_handler now later pool c)) \<and>
      failed (pool3 0) \<and> failed (pool3 1) \<and> failed (pool3 2) \<longrightarrow>
        resp (post_handler now3 later3 pool3 (cache (post_handler now later pool c))) =
          \<lparr>status = 503, cacheControl = None,
           body = Failure ''Service temporarily unavailable'' ''Please try again later''\<rparr>)"
proof (intro impI, elim conjE)
  assume invalid: "\<not> isCacheValid now c" and k: "k < 3" "\<forall>j<k. failed (pool j)" "pool k = Rows []"
  let ?c1 = "\<lparr>data = [], lastUpdated = Some later, isValid = True\<rparr> :: 'a jokesCache"
  have c1: "cache (post_handler now later pool c) = ?c1"
    using post_handler_rows [OF invalid fetch_first_rows [OF k]] by simp
  have fast: "post_handler now2 later2 pool2 ?c1 =
      \<lparr>resp = \<lparr>status = 200, cacheControl = None, body = Records []\<rparr>,
       cache = ?c1, calls = []\<rparr>"
    if "later \<noteq> 0" "now2 - later < CACHE_DURATION"
  proof -
    have "isCacheValid now2 ?c1" using that by (simp add: isCacheValid_def)
    then show ?thesis using post_handler_valid [of now2 ?c1 later2 pool2] by simp
  qed
  have cold: "resp (post_handler now3 later3 pool3 ?c1) =
      \<lparr>status = 503, cacheControl = None,
       body = Failure ''Service temporarily unavailable'' ''Please try again later''\<rparr>"
    if inv3: "\<not> isCacheValid now3 ?c1"
      and f: "failed (pool3 0)" "failed (pool3 1)" "failed (pool3 2)"
    using post_handler_cold [OF inv3 fetch_all_failed [OF f]] by simp
  show "cache (post_handler now later pool c) = ?c1 \<and>
     (later \<noteq> 0 \<and> now2 - later < CACHE_DURATION \<longrightarrow>
        post_handler now2 later2 pool2 (cache (post_handler now later pool c)) =
          \<lparr>resp = \<lparr>status = 200, cacheControl = None, body = Records []\<rparr>,
           cache = cache (post_handler now later pool c), calls = []\<rparr>) \<and>
     (\<not> isCacheValid now3 (cache (post_handler now later pool c)) \<and>
      failed (pool3 0) \<and> failed (pool3 1) \<and> failed (pool3 2) \<longrightarrow>
        resp (post_handler now3 later3 pool3 (cache (post_handler now later pool c))) =
          \<lparr>status = 503, cacheControl = None,
           body = Failure ''Service temporarily unavailable'' ''Please try again later''\<rparr>)"
    unfolding c1 using fast cold by blast
qed

text \<open>
  From the initial cache the pool delivers zero rows at the second attempt, at time
  100001; a request at 200000 is served the empty list without a call, and a request at
  900000 with a failing pool gets the 503.
\<close>

theorem empty_rows_then_failure_witness:
  "cache (post_handler 100000 100001 (\<lambda>n. if n = 0 then ConnErr else Rows [])
      (initialCache :: nat jokesCache)) =
     \<lparr>data = [], lastUpdated = Some 100001, isValid = True\<rparr> \<and>
   post_handler 200000 200001 (\<lambda>n. ConnErr)
     (cache (post_handler 100000 100001 (\<lambda>n. if n = 0 then ConnErr else Rows [])
        (initialCache :: nat jokesCache))) =
     \<lparr>resp = \<lparr>status = 200, cacheControl = None, body = Records []\<rparr>,
      cache = cache (post_handler 100000 100001 (\<lambda>n. if n = 0 then ConnErr else Rows [])
        (initialCache :: nat jokesCache)),
      calls = []\<rparr> \<and>
   resp (post_handler 900000 900001 (\<lambda>n. ConnErr)
     (cache (post_handler 100000 100001 (\<lambda>n. if n = 0 then ConnErr else Rows [])
        (initialCache :: nat jokesCache)))) =
     \<lparr>status = 503, cacheControl = None,
      body = Failure ''Service temporarily unavailable'' ''Please try again later''\<rparr>"
proof -
  let ?pool = "\<lambda>n::nat. if n = 0 then ConnErr else (Rows [] :: nat outcome)"
  let ?down = "\<lambda>n::nat. (ConnErr :: nat outcome)"
  have pre: "\<not> isCacheValid 100000 (initialCache :: nat jokesCache) \<and> (1::nat) < 3 \<and>
      (\<forall>j<1. failed (?pool j)) \<and> ?pool 1 = Rows []"
    by (simp add: isCacheValid_def initialCache_def)
  note main = empty_rows_then_failure
    [of 100000 "initialCache :: nat jokesCache" 1 ?pool 100001 200000 200001 ?down
      900000 ?down 900001]
  have c1: "cache (post_handler 100000 100001 ?pool (initialCache :: nat jokesCache)) =
      \<lparr>data = [], lastUpdated = Some 100001, isValid = True\<rparr>"
    using main pre by blast
  have expired: "\<not> isCacheValid 900000
      (cache (post_handler 100000 100001 ?pool (initialCache :: nat jokesCache)))"
    unfolding c1 by (simp add: isCacheValid_def CACHE_DURATION_def)
  have within: "(100001::int) \<noteq> 0 \<and> 200000 - 100001 < CACHE_DURATION"
    by (simp add: CACHE_DURATION_def)
  have down: "failed (ConnErr :: nat outcome)"
    by simp
  show ?thesis using main pre within expired down by blast
qed

section \<open>Where the server departs from its specification\<close>

text \<open>
  The branch of the route that answers \<^verbatim>\<open>Database connection error\<close> is never
  taken: the only error the fetch lets out is the one it builds after the loop.
\<close>

lemma database_connection_error_unreachable:
  "body (resp (post_handler now later pool c)) \<noteq> Failure ''Database connection error'' m"
proof (cases "isCacheValid now c")
  case True
  then show ?thesis by (simp add: post_handler_valid)
next
  case invalid: False
  show ?thesis
  proof (cases pool rule: fetch_cases)
    case (rows k rs)
    show ?thesis
      using post_handler_rows [OF invalid fetch_first_rows [OF rows]] by simp
  next
    case exhausted
    show ?thesis
    proof (cases "data c = []")
      case True
      then show ?thesis
        using post_handler_cold [OF invalid fetch_all_failed [OF exhausted]] by simp
    next
      case False
      then show ?thesis
        using post_handler_stale [OF invalid fetch_all_failed [OF exhausted]] by simp
    qed
  qed
qed

text \<open>
  C1, on the empty initial cache with a pool that hands out no connection in any of the
  three attempts. The third attempt rejects with \<^verbatim>\<open>Error connecting to the database\<close>;
  the fetch rejects with another error, which does not carry that cause; and the route
  answers the generic \<^verbatim>\<open>Service temporarily unavailable\<close>, not
  \<^verbatim>\<open>Database connection error\<close>.
\<close>

theorem connection_failure_cause_lost:
  "fst (attempt 2 (ConnErr :: nat outcome)) = Inl (Error ''Error connecting to the database'') \<and>
   fst (fetchJokesFromDB (\<lambda>n. ConnErr :: nat outcome)) =
     Inl (Error ''Unable to connect to the database after multiple retries'') \<and>
   resp (post_handler 5 6 (\<lambda>n. ConnErr) (initialCache :: nat jokesCache)) =
     \<lparr>status = 503, cacheControl = None,
      body = Failure ''Service temporarily unavailable'' ''Please try again later''\<rparr>"
  by (simp add: post_handler_def isCacheValid_def initialCache_def
      fetchJokesFromDB_def fetch_loop.simps MAX_RETRIES_def)

text \<open>
  C3, on a valid entry of five rows written at 100000 and read at 200000. The rows are
  returned, the entry is kept and no call is made; the response carries no
  \<^verbatim>\<open>Cache-Control\<close> header, where the claim has \<^verbatim>\<open>max-age=300\<close>.
\<close>

theorem fast_path_without_cache_control:
  "post_handler 200000 200001 (\<lambda>n. Rows [9])
     (\<lparr>data = [1, 2, 3, 4, 5], lastUpdated = Some 100000, isValid = True\<rparr> :: nat jokesCache) =
     \<lparr>resp = \<lparr>status = 200, cacheControl = None, body = Records [1, 2, 3, 4, 5]\<rparr>,
      cache = \<lparr>data = [1, 2, 3, 4, 5], lastUpdated = Some 100000, isValid = True\<rparr>,
      calls = []\<rparr>"
  by (simp add: post_handler_def isCacheValid_def CACHE_DURATION_def)

text \<open>
  C4, on a pool whose query fails in each of the three attempts. The fetch makes three
  attempts and rejects with its final error; each failed attempt is followed by a wait
  of 1000 milliseconds, the third one too, after which no attempt is made.
\<close>

theorem wait_after_third_failure:
  "fetchJokesFromDB (\<lambda>n. QueryErr :: nat outcome) =
     (Inl (Error ''Unable to connect to the database after multiple retries''),
      [GetConnection 0, Query 0, Release 0, SetTimeout 1000,
       GetConnection 1, Query 1, Release 1, SetTimeout 1000,
       GetConnection 2, Query 2, Release 2, SetTimeout 1000])"
  by (simp add: fetchJokesFromDB_def fetch_loop.simps MAX_RETRIES_def RETRY_DELAY_def)

end
